theory Spec2Isabelle
  imports Complex_Main
begin

section \<open>Numbers of the reliability model\<close>

text \<open>
  The program is the script \<^verbatim>\<open>reliability.js\<close> and its older sibling (an unnamed
  part of the repository, called part 000 below). Both compute with JavaScript numbers.
  A finite JavaScript number is modelled as a \<^typ>\<open>real\<close>: sums, products and
  differences are exact, so rounding to 53 bits and overflow are outside the model, and
  so is the sign of zero.

  Division is the one operation of the script that leaves the finite numbers: where the
  divisor is a computed value, \<^verbatim>\<open>a / b\<close> is modelled by \<open>js_div\<close>, which returns
  \<open>PosInfinity\<close>, \<open>NegInfinity\<close> or \<open>NaN\<close> at \<open>b = 0\<close> as JavaScript does. The values
  computed from such a quotient (\<^verbatim>\<open>Math.floor\<close>, products, differences, the test
  \<^verbatim>\<open>>\<close>) are modelled on \<open>jsnum\<close> with the rules of JavaScript for infinities
  and \<^verbatim>\<open>NaN\<close>. Where the divisor is a scenario constant different from zero
  (\<^verbatim>\<open>slowWorker.p\<close>, \<^verbatim>\<open>slowWorker.tWork\<close>) the quotient is the real quotient.

  Exact numbers limit what \<open>js_div\<close> says about the script in three ways. The model has
  one zero, where JavaScript returns \<^verbatim>\<open>-Infinity\<close> for \<^verbatim>\<open>1 / -0\<close>. A quotient of
  finite numbers is finite in the model, where JavaScript returns \<^verbatim>\<open>Infinity\<close> once
  the divisor is close enough to zero. And \<^verbatim>\<open>Math.floor\<close> is taken of the exact
  quotient, where JavaScript takes it of the rounded one. Likewise a sum of finite
  numbers is finite in the model, where JavaScript returns \<^verbatim>\<open>Infinity\<close> once the sum
  passes the largest number. What is proved below about a division by zero is therefore
  stated for either sign of the result, and what is proved about the labels of a
  comparison is stated for every JavaScript number, finite or not, that a cost can be.
\<close>

datatype jsnum = Num real | PosInfinity | NegInfinity | NaN

datatype js_error = TypeError

definition js_div :: "real \<Rightarrow> real \<Rightarrow> jsnum" where
  "js_div a b =
     (if b = 0 then (if 0 < a then PosInfinity else if a < 0 then NegInfinity else NaN)
      else Num (a / b))"

fun js_floor :: "jsnum \<Rightarrow> jsnum" where
  "js_floor (Num x) = Num (of_int \<lfloor>x\<rfloor>)"
| "js_floor PosInfinity = PosInfinity"
| "js_floor NegInfinity = NegInfinity"
| "js_floor NaN = NaN"

fun js_mul :: "jsnum \<Rightarrow> jsnum \<Rightarrow> jsnum" where
  "js_mul (Num a) (Num b) = Num (a * b)"
| "js_mul NaN y = NaN"
| "js_mul x NaN = NaN"
| "js_mul PosInfinity (Num b) =
     (if 0 < b then PosInfinity else if b < 0 then NegInfinity else NaN)"
| "js_mul NegInfinity (Num b) =
     (if 0 < b then NegInfinity else if b < 0 then PosInfinity else NaN)"
| "js_mul (Num a) PosInfinity =
     (if 0 < a then PosInfinity else if a < 0 then NegInfinity else NaN)"
| "js_mul (Num a) NegInfinity =
     (if 0 < a then NegInfinity else if a < 0 then PosInfinity else NaN)"
| "js_mul PosInfinity PosInfinity = PosInfinity"
| "js_mul PosInfinity NegInfinity = NegInfinity"
| "js_mul NegInfinity PosInfinity = NegInfinity"
| "js_mul NegInfinity NegInfinity = PosInfinity"

fun js_sub :: "jsnum \<Rightarrow> jsnum \<Rightarrow> jsnum" where
  "js_sub (Num a) (Num b) = Num (a - b)"
| "js_sub NaN y = NaN"
| "js_sub x NaN = NaN"
| "js_sub PosInfinity PosInfinity = NaN"
| "js_sub NegInfinity NegInfinity = NaN"
| "js_sub PosInfinity y = PosInfinity"
| "js_sub NegInfinity y = NegInfinity"
| "js_sub (Num a) PosInfinity = NegInfinity"
| "js_sub (Num a) NegInfinity = PosInfinity"

fun js_gt :: "jsnum \<Rightarrow> jsnum \<Rightarrow> bool" where
  "js_gt (Num a) (Num b) = (b < a)"
| "js_gt NaN y = False"
| "js_gt x NaN = False"
| "js_gt x PosInfinity = False"
| "js_gt NegInfinity y = False"
| "js_gt PosInfinity y = True"
| "js_gt (Num a) NegInfinity = True"



section \<open>Data model\<close>

text \<open>
  The objects of the script, as records. A field carries the name of its object where
  the bare name (\<^verbatim>\<open>p\<close>, \<^verbatim>\<open>w\<close>, \<^verbatim>\<open>C\<close>, \<^verbatim>\<open>F\<close>, \<^verbatim>\<open>diff\<close>) is also a parameter
  or is used by two objects. The labels \<^verbatim>\<open>"A"\<close>, \<^verbatim>\<open>"B"\<close> and \<^verbatim>\<open>null\<close> of a
  comparison are \<open>Some ''A''\<close>, \<open>Some ''B''\<close> and \<open>None\<close>.
\<close>

record Worker =
  worker_label :: string
  worker_p :: real
  worker_w :: real
  worker_tWork :: real

record SharedCost =
  cost_C :: real
  cost_F :: real

record SharedTime =
  time_tVerify :: real
  time_tFix :: real

record CostComparison =
  costA :: real
  costB :: real
  cheaper :: "string option"
  cost_diff :: real

record TimeComparison =
  timeA :: real
  timeB :: real
  throughputA :: jsnum
  throughputB :: jsnum
  faster :: "string option"
  time_diff :: real

record Comparison =
  cmp_cost :: CostComparison
  cmp_time :: TimeComparison

record BatchSummary =
  bs_label :: string
  bs_attempts :: real
  bs_p :: real
  bs_w :: real
  bs_costPerJob :: real
  bs_timePerJob :: real
  bs_totalCost :: real
  bs_totalTime :: real
  bs_expectedCorrectFirstPass :: real
  bs_expectedWrongFirstPass :: real
  bs_finishedCorrectUnits :: real

section \<open>Economic primitives (reliability.js, sections 1 to 3)\<close>

text \<open>
  Each function of the script takes one object and destructures it; the model takes the
  fields as arguments, in the order of the pattern.
\<close>

definition expectedValueTrust :: "real \<Rightarrow> real \<Rightarrow> real \<Rightarrow> real" where
  "expectedValueTrust p B L = p * B - (1 - p) * L"

definition expectedValueVerify :: "real \<Rightarrow> real \<Rightarrow> real \<Rightarrow> real \<Rightarrow> real" where
  "expectedValueVerify p B C F = B - C - (1 - p) * F"

definition expectedCostWithVerification :: "real \<Rightarrow> real \<Rightarrow> real \<Rightarrow> real \<Rightarrow> real" where
  "expectedCostWithVerification p w C F = w + C + (1 - p) * F"

definition expectedTimeWithVerification :: "real \<Rightarrow> real \<Rightarrow> real \<Rightarrow> real \<Rightarrow> real" where
  "expectedTimeWithVerification p tWork tVerify tFix = tWork + tVerify + (1 - p) * tFix"

definition jobsPerHour :: "real \<Rightarrow> jsnum" where
  "jobsPerHour expectedTimePerJobHours = js_div 1 expectedTimePerJobHours"

section \<open>Comparing two workers (reliability.js, section 4)\<close>

definition compareWorkersCostAndSpeed ::
  "Worker \<Rightarrow> Worker \<Rightarrow> SharedCost \<Rightarrow> SharedTime \<Rightarrow> Comparison" where
  "compareWorkersCostAndSpeed workerA workerB sharedCost sharedTime =
     (let eps = 1 / 10 ^ 9;
          cA = expectedCostWithVerification (worker_p workerA) (worker_w workerA)
                 (cost_C sharedCost) (cost_F sharedCost);
          cB = expectedCostWithVerification (worker_p workerB) (worker_w workerB)
                 (cost_C sharedCost) (cost_F sharedCost);
          tA = expectedTimeWithVerification (worker_p workerA) (worker_tWork workerA)
                 (time_tVerify sharedTime) (time_tFix sharedTime);
          tB = expectedTimeWithVerification (worker_p workerB) (worker_tWork workerB)
                 (time_tVerify sharedTime) (time_tFix sharedTime);
          thrA = jobsPerHour tA;
          thrB = jobsPerHour tB;
          ch = (if \<bar>cA - cB\<bar> > eps then (if cA < cB then Some ''A'' else Some ''B'')
                else None);
          fa = (if \<bar>tA - tB\<bar> > eps then (if tA < tB then Some ''A'' else Some ''B'')
                else None)
      in \<lparr>cmp_cost = \<lparr>costA = cA, costB = cB, cheaper = ch, cost_diff = \<bar>cA - cB\<bar>\<rparr>,
          cmp_time = \<lparr>timeA = tA, timeB = tB, throughputA = thrA, throughputB = thrB,
                      faster = fa, time_diff = \<bar>tA - tB\<bar>\<rparr>\<rparr>)"


section \<open>Reliability premium (reliability.js, section 5)\<close>

definition maxWagePremiumForHigherReliability :: "real \<Rightarrow> real \<Rightarrow> real \<Rightarrow> real" where
  "maxWagePremiumForHigherReliability pLow pHigh F = (pHigh - pLow) * F"

section \<open>Batch layer (reliability.js, section 6)\<close>

definition summarizeBatchByAttempts ::
  "string \<Rightarrow> real \<Rightarrow> Worker \<Rightarrow> SharedCost \<Rightarrow> SharedTime \<Rightarrow> BatchSummary" where
  "summarizeBatchByAttempts label attempts worker sharedCost sharedTime =
     (let costPerJob = expectedCostWithVerification (worker_p worker) (worker_w worker)
                         (cost_C sharedCost) (cost_F sharedCost);
          timePerJob = expectedTimeWithVerification (worker_p worker) (worker_tWork worker)
                         (time_tVerify sharedTime) (time_tFix sharedTime);
          totalCost = attempts * costPerJob;
          totalTime = attempts * timePerJob;
          expectedCorrectFirstPass = worker_p worker * attempts;
          expectedWrongFirstPass = (1 - worker_p worker) * attempts;
          finishedCorrectUnits = attempts
      in \<lparr>bs_label = label, bs_attempts = attempts, bs_p = worker_p worker,
          bs_w = worker_w worker, bs_costPerJob = costPerJob, bs_timePerJob = timePerJob,
          bs_totalCost = totalCost, bs_totalTime = totalTime,
          bs_expectedCorrectFirstPass = expectedCorrectFirstPass,
          bs_expectedWrongFirstPass = expectedWrongFirstPass,
          bs_finishedCorrectUnits = finishedCorrectUnits\<rparr>)"

section \<open>Scenario wiring (reliability.js, section 7)\<close>

text \<open>
  A worker of the script is an object literal: evaluating it checks nothing and cannot
  throw, whatever the numbers are. \<open>workerLiteral\<close> is that evaluation, with the result
  type of a construction that could fail.
\<close>

definition workerLiteral :: "string \<Rightarrow> real \<Rightarrow> real \<Rightarrow> real \<Rightarrow> js_error + Worker" where
  "workerLiteral label p w tWork =
     Inr \<lparr>worker_label = label, worker_p = p, worker_w = w, worker_tWork = tWork\<rparr>"

definition fastWorker :: Worker where
  "fastWorker = \<lparr>worker_label = ''Fast but sloppy dev'', worker_p = 0.7,
                  worker_w = 120 * 3.0, worker_tWork = 3.0\<rparr>"

definition slowWorker :: Worker where
  "slowWorker = \<lparr>worker_label = ''Slow but careful dev'', worker_p = 0.95,
                  worker_w = 120 * 4.0, worker_tWork = 4.0\<rparr>"

definition sharedCost :: SharedCost where
  "sharedCost = \<lparr>cost_C = 160 * 0.75, cost_F = 140 * 2.25\<rparr>"

definition sharedTime :: SharedTime where
  "sharedTime = \<lparr>time_tVerify = 0.75, time_tFix = 2.25\<rparr>"

definition perJob :: Comparison where
  "perJob = compareWorkersCostAndSpeed fastWorker slowWorker sharedCost sharedTime"

text \<open>
  The number of attempts that fit in a time budget is written in the script as
  \<^verbatim>\<open>Math.floor(hours / timePerJob)\<close>, at each place that needs it (the lines of
  \<^verbatim>\<open>fastAttempts\<close>, \<^verbatim>\<open>slowAttempts\<close>, \<^verbatim>\<open>slowAttemptsSweep\<close>,
  \<^verbatim>\<open>fastAttemptsSweep\<close>, \<^verbatim>\<open>slowAttempts2\<close> and \<^verbatim>\<open>attemptsFast\<close>).
  \<open>attemptsFromBudget\<close> is that expression.
\<close>

definition attemptsFromBudget :: "real \<Rightarrow> real \<Rightarrow> jsnum" where
  "attemptsFromBudget hours timePerJob = js_floor (js_div hours timePerJob)"

definition sprintHours :: real where
  "sprintHours = 80"

definition fastAttempts :: jsnum where
  "fastAttempts = attemptsFromBudget sprintHours (timeA (cmp_time perJob))"

definition slowAttempts :: jsnum where
  "slowAttempts = attemptsFromBudget sprintHours (timeB (cmp_time perJob))"

subsection \<open>The first sweep: capped speed-up (section 7e)\<close>

definition tWorkFastCapped :: "real \<Rightarrow> real" where
  "tWorkFastCapped pFast =
     (let speedFloor = 0.5;
          linear = worker_tWork slowWorker * (pFast / worker_p slowWorker);
          minWork = worker_tWork slowWorker * speedFloor
      in max linear minWork)"

subsection \<open>The second sweep: cheap fast dev, expensive verifier (section 7f)\<close>

definition sweep2UnitPrice :: real where
  "sweep2UnitPrice = 1000"

definition sweep2SprintHours :: real where
  "sweep2SprintHours = 80"

definition slowDevRate :: real where
  "slowDevRate = worker_w slowWorker / worker_tWork slowWorker"

definition fastDevRate :: real where
  "fastDevRate = 80"

definition verifierRate :: real where
  "verifierRate = 180"

definition tVerify2 :: real where
  "tVerify2 = time_tVerify sharedTime"

definition tFix2 :: real where
  "tFix2 = 4.0"

definition C2 :: real where
  "C2 = cost_C sharedCost"

definition F2 :: real where
  "F2 = verifierRate * tFix2"

record TimeCost =
  tc_timePerJob :: real
  tc_costPerJob :: real

definition timeCostPerJobSweep2 :: "real \<Rightarrow> real \<Rightarrow> real \<Rightarrow> TimeCost" where
  "timeCostPerJobSweep2 p tWork hourlyRate =
     \<lparr>tc_timePerJob = expectedTimeWithVerification p tWork tVerify2 tFix2,
      tc_costPerJob = expectedCostWithVerification p (hourlyRate * tWork) C2 F2\<rparr>"

text \<open>
  One point of the second sweep: the statements that the table loop and the sweet-spot
  search both run for a value of \<^verbatim>\<open>pFast\<close>, from \<^verbatim>\<open>tWorkFast\<close> to
  \<^verbatim>\<open>profitFast\<close>.
\<close>

record SweepPoint =
  sp_tWorkFast :: real
  sp_attemptsFast :: jsnum
  sp_profitFast :: jsnum

definition sweep2Point :: "real \<Rightarrow> SweepPoint" where
  "sweep2Point pFast =
     (let tWorkFast = worker_tWork slowWorker * (pFast / worker_p slowWorker);
          tc = timeCostPerJobSweep2 pFast tWorkFast fastDevRate;
          attemptsFast = attemptsFromBudget sweep2SprintHours (tc_timePerJob tc);
          revenueFast = js_mul attemptsFast (Num sweep2UnitPrice);
          totalCostFast = js_mul attemptsFast (Num (tc_costPerJob tc));
          profitFast = js_sub revenueFast totalCostFast
      in \<lparr>sp_tWorkFast = tWorkFast, sp_attemptsFast = attemptsFast,
          sp_profitFast = profitFast\<rparr>)"

text \<open>
  The accumulator of the search. \<^verbatim>\<open>best.pFast\<close> starts as \<^verbatim>\<open>null\<close> (\<open>None\<close>) and
  \<^verbatim>\<open>best.profitFast\<close> as \<^verbatim>\<open>-Infinity\<close>.
\<close>

record Best =
  best_pFast :: "real option"
  best_profitFast :: jsnum
  best_attempts :: jsnum
  best_tWorkFast :: real

definition sweetSpotBody :: "real \<Rightarrow> Best \<Rightarrow> Best" where
  "sweetSpotBody pFast best =
     (let pt = sweep2Point pFast
      in if js_gt (sp_profitFast pt) (best_profitFast best)
         then \<lparr>best_pFast = Some pFast, best_profitFast = sp_profitFast pt,
               best_attempts = sp_attemptsFast pt, best_tWorkFast = sp_tWorkFast pt\<rparr>
         else best)"

text \<open>
  The loop \<^verbatim>\<open>for (let pFast = 0.2; pFast <= 0.95 + 1e-9; pFast += 0.01)\<close>. It
  terminates because each round moves \<^verbatim>\<open>pFast\<close> one step closer to the bound.
\<close>

function sweetSpotLoop :: "real \<Rightarrow> Best \<Rightarrow> Best" where
  "sweetSpotLoop pFast best =
     (if pFast \<le> 0.95 + 1 / 10 ^ 9
      then sweetSpotLoop (pFast + 0.01) (sweetSpotBody pFast best)
      else best)"
  by pat_completeness auto
termination
  by (relation "measure (\<lambda>(pFast, best). nat \<lfloor>(0.97 - pFast) * 100\<rfloor>)") (auto, linarith)

declare sweetSpotLoop.simps [simp del]

text \<open>The values of \<^verbatim>\<open>pFast\<close> that the loop visits, in order.\<close>

function sweepGrid :: "real \<Rightarrow> real list" where
  "sweepGrid pFast =
     (if pFast \<le> 0.95 + 1 / 10 ^ 9 then pFast # sweepGrid (pFast + 0.01) else [])"
  by pat_completeness auto
termination
  by (relation "measure (\<lambda>pFast. nat \<lfloor>(0.97 - pFast) * 100\<rfloor>)") (auto, linarith)

declare sweepGrid.simps [simp del]

text \<open>
  The search itself. After the loop the script prints \<^verbatim>\<open>best.pFast.toFixed(2)\<close>,
  which throws a \<^verbatim>\<open>TypeError\<close> when \<^verbatim>\<open>best.pFast\<close> is still \<^verbatim>\<open>null\<close>; otherwise
  the record it reports is \<^verbatim>\<open>best\<close>.
\<close>

definition findSweetSpotSweep2 :: "js_error + Best" where
  "findSweetSpotSweep2 =
     (let best = sweetSpotLoop 0.2
                   \<lparr>best_pFast = None, best_profitFast = NegInfinity,
                    best_attempts = Num 0, best_tWorkFast = 0\<rparr>
      in case best_pFast best of None \<Rightarrow> Inl TypeError | Some q \<Rightarrow> Inr best)"

section \<open>The older model (part 000)\<close>




definition maxWagePremiumForHigherReliability_part000 :: "real \<Rightarrow> real \<Rightarrow> real \<Rightarrow> real" where
  "maxWagePremiumForHigherReliability_part000 pLow pHigh F = (pHigh - pLow) * F"

section \<open>The invariant of the sweet-spot search\<close>

text \<open>
  What holds of the accumulator after the loop has visited the points of \<open>S\<close>: either no
  point was visited and the accumulator is the initial one, or it records one of the
  visited points, with the values computed at that point, and the profit of every visited
  point is a finite number that does not exceed the recorded one.
\<close>

definition sweetSpotInv :: "real set \<Rightarrow> Best \<Rightarrow> bool" where
  "sweetSpotInv S best \<longleftrightarrow>
     (S = {} \<and> best_pFast best = None \<and> best_profitFast best = NegInfinity)
     \<or> (\<exists>q v. best_pFast best = Some q \<and> q \<in> S \<and> best_profitFast best = Num v
           \<and> sp_profitFast (sweep2Point q) = Num v
           \<and> best_attempts best = sp_attemptsFast (sweep2Point q)
           \<and> best_tWorkFast best = sp_tWorkFast (sweep2Point q)
           \<and> (\<forall>x\<in>S. \<exists>u. sp_profitFast (sweep2Point x) = Num u \<and> u \<le> v))"

section \<open>The default scenario\<close>

lemma fastWorker_simps:
  "worker_p fastWorker = 0.7" "worker_w fastWorker = 360" "worker_tWork fastWorker = 3"
  by (simp_all add: fastWorker_def)

lemma slowWorker_simps:
  "worker_p slowWorker = 0.95" "worker_w slowWorker = 480" "worker_tWork slowWorker = 4"
  by (simp_all add: slowWorker_def)

lemma sharedCost_simps: "cost_C sharedCost = 120" "cost_F sharedCost = 315"
  by (simp_all add: sharedCost_def)

lemma sharedTime_simps: "time_tVerify sharedTime = 0.75" "time_tFix sharedTime = 2.25"
  by (simp_all add: sharedTime_def)

text \<open>
  Claim C1. With the defaults of the script (fast worker p = 0.7, w = 360, tWork = 3;
  slow worker p = 0.95, w = 480, tWork = 4; C = 120, F = 315, tVerify = 0.75,
  tFix = 2.25) the expected cost per finished job is 574.5 for the fast worker and
  615.75 for the slow one, and the expected time is 4.425 hours and 4.8625 hours; each
  value is met exactly, hence within 1e-9. The per-job comparison of the script reports
  the same four numbers.
\<close>

theorem default_scenario_cost_and_time:
  "expectedCostWithVerification (worker_p fastWorker) (worker_w fastWorker)
     (cost_C sharedCost) (cost_F sharedCost) = 574.5
   \<and> expectedCostWithVerification (worker_p slowWorker) (worker_w slowWorker)
     (cost_C sharedCost) (cost_F sharedCost) = 615.75
   \<and> expectedTimeWithVerification (worker_p fastWorker) (worker_tWork fastWorker)
     (time_tVerify sharedTime) (time_tFix sharedTime) = 4.425
   \<and> expectedTimeWithVerification (worker_p slowWorker) (worker_tWork slowWorker)
     (time_tVerify sharedTime) (time_tFix sharedTime) = 4.8625
   \<and> \<bar>costA (cmp_cost perJob) - 574.5\<bar> \<le> 1 / 10 ^ 9
   \<and> \<bar>costB (cmp_cost perJob) - 615.75\<bar> \<le> 1 / 10 ^ 9
   \<and> \<bar>timeA (cmp_time perJob) - 4.425\<bar> \<le> 1 / 10 ^ 9
   \<and> \<bar>timeB (cmp_time perJob) - 4.8625\<bar> \<le> 1 / 10 ^ 9"
  by (simp add: perJob_def compareWorkersCostAndSpeed_def Let_def
      expectedCostWithVerification_def expectedTimeWithVerification_def
      fastWorker_simps slowWorker_simps sharedCost_simps sharedTime_simps)

section \<open>Batch totals\<close>

text \<open>
  Claim C2. For every worker, shared cost, shared time and attempts count n, the batch
  summary has totalCost equal to n times its costPerJob, totalTime equal to n times its
  timePerJob, expectedCorrectFirstPass equal to p times n, expectedWrongFirstPass equal
  to (1 - p) times n and finishedCorrectUnits equal to n; costPerJob and timePerJob are
  the two per-job expectations. The equations hold for every number n, so for every
  count n \<ge> 0.
\<close>

theorem batch_totals:
  "bs_totalCost (summarizeBatchByAttempts label n worker sc st)
     = n * bs_costPerJob (summarizeBatchByAttempts label n worker sc st)
   \<and> bs_totalTime (summarizeBatchByAttempts label n worker sc st)
     = n * bs_timePerJob (summarizeBatchByAttempts label n worker sc st)
   \<and> bs_expectedCorrectFirstPass (summarizeBatchByAttempts label n worker sc st)
     = worker_p worker * n
   \<and> bs_expectedWrongFirstPass (summarizeBatchByAttempts label n worker sc st)
     = (1 - worker_p worker) * n
   \<and> bs_finishedCorrectUnits (summarizeBatchByAttempts label n worker sc st) = n
   \<and> bs_attempts (summarizeBatchByAttempts label n worker sc st) = n
   \<and> bs_costPerJob (summarizeBatchByAttempts label n worker sc st)
     = expectedCostWithVerification (worker_p worker) (worker_w worker) (cost_C sc) (cost_F sc)
   \<and> bs_timePerJob (summarizeBatchByAttempts label n worker sc st)
     = expectedTimeWithVerification (worker_p worker) (worker_tWork worker)
         (time_tVerify st) (time_tFix st)"
  by (simp add: summarizeBatchByAttempts_def Let_def)

section \<open>The capped speed-up\<close>

text \<open>
  Claim C3. With the floor 0.5 of the script, the work time of the fast worker is never
  below half the work time of the slow worker, whatever pFast is (so for every
  pFast \<ge> 0), and at pFast = 0 it is exactly that half.
\<close>

theorem tWorkFastCapped_floor:
  "0.5 * worker_tWork slowWorker \<le> tWorkFastCapped pFast
   \<and> tWorkFastCapped 0 = 0.5 * worker_tWork slowWorker"
  by (simp add: tWorkFastCapped_def Let_def slowWorker_simps)

section \<open>The sweet-spot search\<close>

lemma sweepGrid_unfold_in:
  "pFast \<le> 0.95 + 1 / 10 ^ 9 \<Longrightarrow> sweepGrid pFast = pFast # sweepGrid (pFast + 0.01)"
  by (subst sweepGrid.simps) simp

lemma sweepGrid_unfold_out:
  "\<not> pFast \<le> 0.95 + 1 / 10 ^ 9 \<Longrightarrow> sweepGrid pFast = []"
  by (subst sweepGrid.simps) simp

text \<open>The loop visits the 76 points 0.20, 0.21, ..., 0.95.\<close>

lemma sweepGrid_from:
  "k \<le> 76 \<Longrightarrow> sweepGrid (0.2 + real k / 100) = map (\<lambda>j. 0.2 + real j / 100) [k..<76]"
proof (induction "76 - k" arbitrary: k)
  case 0
  then have k: "k = 76" by simp
  have "\<not> (0.2 + real k / 100 \<le> 0.95 + 1 / 10 ^ 9)" unfolding k by simp
  then show ?case using k by (simp add: sweepGrid_unfold_out)
next
  case (Suc n)
  then have k: "k < 76" by simp
  then have "real k \<le> 75" by simp
  then have le: "0.2 + real k / 100 \<le> 0.95 + 1 / 10 ^ 9" by simp
  have nxt: "0.2 + real k / 100 + 0.01 = 0.2 + real (Suc k) / 100" by (simp add: field_simps)
  have ih: "sweepGrid (0.2 + real (Suc k) / 100) = map (\<lambda>j. 0.2 + real j / 100) [Suc k..<76]"
    using Suc k by (intro Suc.hyps(1)) simp_all
  have "[k..<76] = k # [Suc k..<76]" using k by (simp add: upt_conv_Cons)
  then show ?case
    using sweepGrid_unfold_in [OF le] ih nxt by simp
qed

lemma sweepGrid_points: "sweepGrid 0.2 = map (\<lambda>j. 0.2 + real j / 100) [0..<76]"
  using sweepGrid_from [of 0] by simp

lemma sweepGrid_bounds:
  "x \<in> set (sweepGrid a) \<Longrightarrow> a \<le> x \<and> x \<le> 0.95 + 1 / 10 ^ 9"
proof (induction a rule: sweepGrid.induct)
  case (1 pFast)
  show ?case
  proof (cases "pFast \<le> 0.95 + 1 / 10 ^ 9")
    case True
    from "1.prems" sweepGrid_unfold_in [OF True]
    have "x = pFast \<or> x \<in> set (sweepGrid (pFast + 0.01))" by simp
    then show ?thesis
    proof
      assume "x = pFast"
      then show ?thesis using True by simp
    next
      assume "x \<in> set (sweepGrid (pFast + 0.01))"
      from "1.IH" [OF True this] show ?thesis by simp
    qed
  next
    case False
    with "1.prems" sweepGrid_unfold_out show ?thesis by simp
  qed
qed

lemma sweepGrid_start: "0.2 \<in> set (sweepGrid 0.2)"
  by (subst sweepGrid.simps) simp

text \<open>
  On the grid the time per job is positive, so the division of the sprint by it is a
  finite number and so is the profit.
\<close>

lemma sweep2_timePerJob_pos:
  assumes "0 \<le> x"
  shows "0 < tc_timePerJob (timeCostPerJobSweep2 x
            (worker_tWork slowWorker * (x / worker_p slowWorker)) fastDevRate)"
proof -
  have "tc_timePerJob (timeCostPerJobSweep2 x
            (worker_tWork slowWorker * (x / worker_p slowWorker)) fastDevRate)
        = 4 * (x / 0.95) + 0.75 + (1 - x) * 4"
    by (simp add: timeCostPerJobSweep2_def expectedTimeWithVerification_def tVerify2_def
        tFix2_def slowWorker_simps sharedTime_simps)
  also have "\<dots> = 4.75 + x * (4 / 0.95 - 4)" by (simp add: algebra_simps)
  also have "0 < \<dots>" using assms by (simp add: add_pos_nonneg)
  finally show ?thesis .
qed

lemma sweep2Point_profit_finite:
  assumes "0 \<le> x"
  shows "\<exists>u. sp_profitFast (sweep2Point x) = Num u"
proof -
  have "tc_timePerJob (timeCostPerJobSweep2 x
            (worker_tWork slowWorker * (x / worker_p slowWorker)) fastDevRate) \<noteq> 0"
    using sweep2_timePerJob_pos [OF assms] by simp
  then show ?thesis
    by (simp add: sweep2Point_def Let_def attemptsFromBudget_def js_div_def)
qed

lemma sweetSpotBody_inv:
  assumes "0 \<le> pFast" and "sweetSpotInv S best"
  shows "sweetSpotInv (insert pFast S) (sweetSpotBody pFast best)"
proof -
  obtain u where u: "sp_profitFast (sweep2Point pFast) = Num u"
    using sweep2Point_profit_finite [OF assms(1)] by blast
  from assms(2) consider
    (empty) "S = {}" "best_pFast best = None" "best_profitFast best = NegInfinity"
  | (some) q v where "best_pFast best = Some q" "q \<in> S" "best_profitFast best = Num v"
      "sp_profitFast (sweep2Point q) = Num v"
      "best_attempts best = sp_attemptsFast (sweep2Point q)"
      "best_tWorkFast best = sp_tWorkFast (sweep2Point q)"
      "\<forall>x\<in>S. \<exists>u. sp_profitFast (sweep2Point x) = Num u \<and> u \<le> v"
    unfolding sweetSpotInv_def by auto
  then show ?thesis
  proof cases
    case empty
    then show ?thesis
      by (simp add: sweetSpotBody_def Let_def u sweetSpotInv_def)
  next
    case some
    show ?thesis
    proof (cases "v < u")
      case True
      have "\<forall>x\<in>insert pFast S. \<exists>w. sp_profitFast (sweep2Point x) = Num w \<and> w \<le> u"
        using some(7) True u by fastforce
      then show ?thesis
        using True some(3) u by (simp add: sweetSpotBody_def Let_def sweetSpotInv_def)
    next
      case False
      have "\<forall>x\<in>insert pFast S. \<exists>w. sp_profitFast (sweep2Point x) = Num w \<and> w \<le> v"
        using some(7) False u by fastforce
      then show ?thesis
        using False some u by (auto simp add: sweetSpotBody_def Let_def sweetSpotInv_def)
    qed
  qed
qed

lemma sweetSpotLoop_inv:
  "0 \<le> pFast \<Longrightarrow> sweetSpotInv S best
     \<Longrightarrow> sweetSpotInv (S \<union> set (sweepGrid pFast)) (sweetSpotLoop pFast best)"
proof (induction pFast best arbitrary: S rule: sweetSpotLoop.induct)
  case (1 pFast best)
  show ?case
  proof (cases "pFast \<le> 0.95 + 1 / 10 ^ 9")
    case True
    have step: "sweetSpotInv (insert pFast S) (sweetSpotBody pFast best)"
      using "1.prems" by (rule sweetSpotBody_inv)
    have "sweetSpotInv (insert pFast S \<union> set (sweepGrid (pFast + 0.01)))
            (sweetSpotLoop (pFast + 0.01) (sweetSpotBody pFast best))"
      using "1.IH" [OF True _ step] "1.prems"(1) by simp
    moreover have "sweetSpotLoop pFast best
        = sweetSpotLoop (pFast + 0.01) (sweetSpotBody pFast best)"
      using True by (subst sweetSpotLoop.simps) simp
    ultimately show ?thesis by (simp add: sweepGrid_unfold_in [OF True])
  next
    case False
    have "sweetSpotLoop pFast best = best"
      using False by (subst sweetSpotLoop.simps) simp
    then show ?thesis using "1.prems"(2) by (simp add: sweepGrid_unfold_out [OF False])
  qed
qed

text \<open>
  Claim C4. The sweet-spot search scans pFast from 0.2 up to 0.95 (+ 1e-9) in steps of
  0.01, that is the 76 points 0.20, 0.21, ..., 0.95. It ends without an error, the pFast
  it reports is one of the scanned points and lies within the bounds of the scan, the
  profit it reports is the profit computed at that point, and that profit is greater
  than or equal to the profit computed at every scanned point.
\<close>

theorem sweet_spot_is_grid_maximum:
  "sweepGrid 0.2 = map (\<lambda>j. 0.2 + real j / 100) [0..<76]
   \<and> (\<exists>b q v. findSweetSpotSweep2 = Inr b \<and> best_pFast b = Some q
      \<and> best_profitFast b = Num v
      \<and> q \<in> set (sweepGrid 0.2) \<and> 0.2 \<le> q \<and> q \<le> 0.95 + 1 / 10 ^ 9
      \<and> sp_profitFast (sweep2Point q) = Num v
      \<and> best_attempts b = sp_attemptsFast (sweep2Point q)
      \<and> best_tWorkFast b = sp_tWorkFast (sweep2Point q)
      \<and> (\<forall>x\<in>set (sweepGrid 0.2). \<exists>u. sp_profitFast (sweep2Point x) = Num u \<and> u \<le> v))"
proof -
  define init where "init = \<lparr>best_pFast = None, best_profitFast = NegInfinity,
                    best_attempts = Num 0, best_tWorkFast = 0\<rparr>"
  define b where "b = sweetSpotLoop 0.2 init"
  have "sweetSpotInv {} init" by (simp add: sweetSpotInv_def init_def)
  then have "sweetSpotInv ({} \<union> set (sweepGrid 0.2)) b"
    unfolding b_def by (intro sweetSpotLoop_inv) simp_all
  then have inv: "sweetSpotInv (set (sweepGrid 0.2)) b" by simp
  have ne: "set (sweepGrid 0.2) \<noteq> {}" using sweepGrid_start by auto
  from inv ne obtain q v where
    q: "best_pFast b = Some q" "q \<in> set (sweepGrid 0.2)" "best_profitFast b = Num v"
      "sp_profitFast (sweep2Point q) = Num v"
      "best_attempts b = sp_attemptsFast (sweep2Point q)"
      "best_tWorkFast b = sp_tWorkFast (sweep2Point q)"
      "\<forall>x\<in>set (sweepGrid 0.2). \<exists>u. sp_profitFast (sweep2Point x) = Num u \<and> u \<le> v"
    unfolding sweetSpotInv_def by blast
  have "findSweetSpotSweep2 = Inr b"
    using q(1) by (simp add: findSweetSpotSweep2_def b_def init_def Let_def)
  moreover have "0.2 \<le> q \<and> q \<le> 0.95 + 1 / 10 ^ 9"
    using sweepGrid_bounds [OF q(2)] .
  ultimately have "\<exists>b q v. findSweetSpotSweep2 = Inr b \<and> best_pFast b = Some q
      \<and> best_profitFast b = Num v
      \<and> q \<in> set (sweepGrid 0.2) \<and> 0.2 \<le> q \<and> q \<le> 0.95 + 1 / 10 ^ 9
      \<and> sp_profitFast (sweep2Point q) = Num v
      \<and> best_attempts b = sp_attemptsFast (sweep2Point q)
      \<and> best_tWorkFast b = sp_tWorkFast (sweep2Point q)
      \<and> (\<forall>x\<in>set (sweepGrid 0.2). \<exists>u. sp_profitFast (sweep2Point x) = Num u \<and> u \<le> v)"
    using q by blast
  then show ?thesis using sweepGrid_points by blast
qed

text \<open>
  The theorem at the first scanned point: the reported profit is at least the profit
  computed at pFast = 0.2.
\<close>

theorem sweet_spot_is_grid_maximum_witness:
  "\<exists>b v u. findSweetSpotSweep2 = Inr b \<and> best_profitFast b = Num v
      \<and> sp_profitFast (sweep2Point 0.2) = Num u \<and> u \<le> v"
  using sweet_spot_is_grid_maximum sweepGrid_start by blast

section \<open>Monotonicity of the expected cost\<close>

text \<open>
  Claim C5, as stated, asks that for p1 < p2 in [0,1] and w, C, F \<ge> 0 the expected cost
  at p2 is strictly below the cost at p1. With F = 0, which F \<ge> 0 allows, the cost does
  not depend on p: at w = 360, C = 120, F = 0 the cost is 480 at p = 0 and at p = 1.
\<close>

theorem cost_strictly_decreasing_counterexample:
  "(0::real) \<le> 0 \<and> (0::real) < 1 \<and> (1::real) \<le> 1
   \<and> (0::real) \<le> 360 \<and> (0::real) \<le> 120 \<and> (0::real) \<le> 0
   \<and> \<not> expectedCostWithVerification 1 360 120 0 < expectedCostWithVerification 0 360 120 0"
  by (simp add: expectedCostWithVerification_def)

text \<open>
  Claim C5, amended. For p1 < p2 and F \<ge> 0 (in particular for p1, p2 in [0,1] and
  w, C, F \<ge> 0) the expected cost at p2 is at most the cost at p1, and it is strictly
  less exactly when F > 0.
\<close>

theorem cost_nonincreasing_in_p:
  assumes "p1 < p2" and "0 \<le> F"
  shows "expectedCostWithVerification p2 w C F \<le> expectedCostWithVerification p1 w C F
    \<and> (expectedCostWithVerification p2 w C F < expectedCostWithVerification p1 w C F
        \<longleftrightarrow> 0 < F)"
proof -
  have d: "expectedCostWithVerification p1 w C F - expectedCostWithVerification p2 w C F
      = (p2 - p1) * F"
    by (simp add: expectedCostWithVerification_def algebra_simps)
  have pos: "0 < p2 - p1" using assms(1) by simp
  have "0 \<le> (p2 - p1) * F" using pos assms(2) by simp
  moreover have "0 < (p2 - p1) * F \<longleftrightarrow> 0 < F"
    using pos by (simp add: zero_less_mult_iff)
  ultimately show ?thesis using d by linarith
qed

theorem cost_nonincreasing_in_p_witness:
  "(0.7::real) < 0.95 \<and> (0::real) \<le> 315
   \<and> expectedCostWithVerification 0.95 360 120 315
       \<le> expectedCostWithVerification 0.7 360 120 315
   \<and> expectedCostWithVerification 0.95 360 120 315
       < expectedCostWithVerification 0.7 360 120 315"
proof -
  have h1: "(0.7::real) < 0.95" by simp
  have h2: "(0::real) \<le> 315" by simp
  show ?thesis using cost_nonincreasing_in_p [OF h1 h2, of 360 120] h1 by simp
qed

section \<open>Symmetry of the comparison\<close>


section \<open>Linearity of the reliability premium\<close>

text \<open>
  Claim C7. The premium is linear in F, it depends on pLow and pHigh through their
  difference only and is linear in that difference, and it is 0 when pHigh = pLow, for
  every pLow and F. The function of part 000 is the same function.
\<close>

theorem premium_linear:
  "maxWagePremiumForHigherReliability pLow pHigh (a * Fa + b * Fb)
     = a * maxWagePremiumForHigherReliability pLow pHigh Fa
       + b * maxWagePremiumForHigherReliability pLow pHigh Fb
   \<and> maxWagePremiumForHigherReliability pLow pHigh F
     = (pHigh - pLow) * maxWagePremiumForHigherReliability 0 1 F
   \<and> maxWagePremiumForHigherReliability pLow (pLow + (a * da + b * db)) F
     = a * maxWagePremiumForHigherReliability pLow (pLow + da) F
       + b * maxWagePremiumForHigherReliability pLow (pLow + db) F
   \<and> maxWagePremiumForHigherReliability pLow pLow F = 0
   \<and> maxWagePremiumForHigherReliability_part000 pLow pHigh F
     = maxWagePremiumForHigherReliability pLow pHigh F"
  by (simp add: maxWagePremiumForHigherReliability_def
      maxWagePremiumForHigherReliability_part000_def algebra_simps)

section \<open>Workers are not validated\<close>

text \<open>
  Claim C8, as stated, asks that constructing a worker with p outside [0,1] fails with a
  validation error, so that no negative cost or time is computed from it. The script
  builds a worker as an object literal and checks nothing: the literal with p = 3 (and
  the w = 360, tWork = 3 of the fast worker) is built, and compared with the slow worker
  under the shared parameters of the script it has the cost -150 and the time -0.75.
\<close>

theorem unvalidated_worker_counterexample:
  "\<not> (3::real) \<le> 1
   \<and> workerLiteral ''Fast but sloppy dev'' 3 (120 * 3.0) 3.0
       = Inr \<lparr>worker_label = ''Fast but sloppy dev'', worker_p = 3, worker_w = 360,
              worker_tWork = 3\<rparr>
   \<and> costA (cmp_cost (compareWorkersCostAndSpeed
        \<lparr>worker_label = ''Fast but sloppy dev'', worker_p = 3, worker_w = 360,
          worker_tWork = 3\<rparr> slowWorker sharedCost sharedTime)) = - 150
   \<and> timeA (cmp_time (compareWorkersCostAndSpeed
        \<lparr>worker_label = ''Fast but sloppy dev'', worker_p = 3, worker_w = 360,
          worker_tWork = 3\<rparr> slowWorker sharedCost sharedTime)) = - 0.75"
  by (simp add: workerLiteral_def compareWorkersCostAndSpeed_def Let_def
      expectedCostWithVerification_def expectedTimeWithVerification_def
      sharedCost_simps sharedTime_simps)

text \<open>
  Claim C8, amended. Constructing a worker never fails, whatever p is: the record holds
  the numbers it was given. The expected cost and the expected time are non-negative
  whenever p \<le> 1 (in particular for p in [0,1]) and the other parameters are
  non-negative. What is computed from p > 1 is neither promised nor excluded here.
\<close>

theorem worker_literal_unvalidated:
  "workerLiteral label p w tWork
     = Inr \<lparr>worker_label = label, worker_p = p, worker_w = w, worker_tWork = tWork\<rparr>
   \<and> (p \<le> 1 \<and> 0 \<le> w \<and> 0 \<le> C \<and> 0 \<le> F
        \<longrightarrow> 0 \<le> expectedCostWithVerification p w C F)
   \<and> (p \<le> 1 \<and> 0 \<le> tWork \<and> 0 \<le> tVerify \<and> 0 \<le> tFix
        \<longrightarrow> 0 \<le> expectedTimeWithVerification p tWork tVerify tFix)"
  by (simp add: workerLiteral_def expectedCostWithVerification_def
      expectedTimeWithVerification_def)

theorem worker_literal_unvalidated_witness:
  "(0.7::real) \<le> 1 \<and> (0::real) \<le> 360 \<and> (0::real) \<le> 120 \<and> (0::real) \<le> 315
   \<and> (0::real) \<le> 3 \<and> (0::real) \<le> 0.75 \<and> (0::real) \<le> 2.25
   \<and> workerLiteral ''Fast but sloppy dev'' 0.7 360 3
       = Inr \<lparr>worker_label = ''Fast but sloppy dev'', worker_p = 0.7, worker_w = 360,
              worker_tWork = 3\<rparr>
   \<and> 0 \<le> expectedCostWithVerification 0.7 360 120 315
   \<and> 0 \<le> expectedTimeWithVerification 0.7 3 0.75 2.25"
  using worker_literal_unvalidated [of "''Fast but sloppy dev''" "0.7" 360 3 120 315 "0.75" "2.25"]
  by simp

section \<open>Division by the time per job\<close>

text \<open>
  Claim C9, as stated, asks that \<^verbatim>\<open>jobsPerHour\<close> and the division of the budget by the
  time per job fail with a defined error when the time per job is 0 (or negative). The
  script divides without a guard: at 0 the throughput is \<^verbatim>\<open>Infinity\<close>, the attempts
  for the sprint of 80 hours are \<^verbatim>\<open>Infinity\<close>, and for a budget of 0 they are
  \<^verbatim>\<open>NaN\<close>.
\<close>

theorem degenerate_time_counterexample:
  "jobsPerHour 0 = PosInfinity
   \<and> attemptsFromBudget sprintHours 0 = PosInfinity
   \<and> attemptsFromBudget 0 0 = NaN"
  by (simp add: jobsPerHour_def attemptsFromBudget_def js_div_def sprintHours_def)

text \<open>
  Claim C9, amended. When the time per job is 0, \<^verbatim>\<open>jobsPerHour\<close> and the division
  of the budget by the time per job do not fail: \<^verbatim>\<open>jobsPerHour\<close> returns an infinity
  (\<^verbatim>\<open>Infinity\<close>, or \<^verbatim>\<open>-Infinity\<close> for the zero of negative sign), and the attempts
  are an infinity for a finite budget other than 0 and \<^verbatim>\<open>NaN\<close> for the budget 0. Nothing
  is said here about other values of the time per job.
\<close>

theorem zero_time_is_not_an_error:
  "(jobsPerHour 0 = PosInfinity \<or> jobsPerHour 0 = NegInfinity)
   \<and> (h \<noteq> 0 \<longrightarrow>
        attemptsFromBudget h 0 = PosInfinity \<or> attemptsFromBudget h 0 = NegInfinity)
   \<and> attemptsFromBudget 0 0 = NaN"
  by (simp add: jobsPerHour_def attemptsFromBudget_def js_div_def)

text \<open>The theorem at the sprint of the script, a budget of 80 hours.\<close>

theorem zero_time_is_not_an_error_witness:
  "sprintHours \<noteq> 0
   \<and> (jobsPerHour 0 = PosInfinity \<or> jobsPerHour 0 = NegInfinity)
   \<and> (attemptsFromBudget sprintHours 0 = PosInfinity
      \<or> attemptsFromBudget sprintHours 0 = NegInfinity)"
proof -
  have h: "sprintHours \<noteq> 0" by (simp add: sprintHours_def)
  show ?thesis using zero_time_is_not_an_error [of sprintHours] h by blast
qed

text \<open>
  In the script itself the division is harmless: the fast worker fits 18 attempts in
  the sprint and the slow worker 16.
\<close>

lemma sprint_attempts: "fastAttempts = Num 18 \<and> slowAttempts = Num 16"
  by (simp add: fastAttempts_def slowAttempts_def attemptsFromBudget_def js_div_def
      sprintHours_def perJob_def compareWorkersCostAndSpeed_def Let_def
      expectedTimeWithVerification_def fastWorker_simps slowWorker_simps sharedTime_simps)

section \<open>The two variants of the model\<close>









end
